theory Spec2Isabelle
  imports Main
begin

section \<open>Natural-language time parsing of the schedule command\<close>

text \<open>
  The development embeds \<^verbatim>\<open>_parse_natural_time\<close> of
  \<^verbatim>\<open>src/bot/handlers/quick_commands.py\<close>. A Python \<^verbatim>\<open>str\<close> is a list of code
  points; a \<^typ>\<open>char\<close> stands for a code point below 256, so the model covers the texts
  made of such characters. The clock read by \<^verbatim>\<open>datetime.now()\<close> is the parameter
  \<open>now\<close>.
\<close>

subsection \<open>Characters and strings\<close>

definition code :: "char \<Rightarrow> nat" where
  "code c = of_char c"

text \<open>The class \<^verbatim>\<open>\d\<close> of a \<^verbatim>\<open>str\<close> pattern: the decimal digits (below 256 only 0 to 9).\<close>

definition is_digit :: "char \<Rightarrow> bool" where
  "is_digit c = (48 \<le> code c \<and> code c \<le> 57)"

text \<open>
  The class \<^verbatim>\<open>\s\<close> and the characters removed by \<^verbatim>\<open>str.strip()\<close>: tab, line feed,
  vertical tab, form feed, carriage return, the separators 28 to 31, space, and 133 and 160.
\<close>

definition is_space :: "char \<Rightarrow> bool" where
  "is_space c = ((9 \<le> code c \<and> code c \<le> 13) \<or> (28 \<le> code c \<and> code c \<le> 32)
                 \<or> code c = 133 \<or> code c = 160)"

text \<open>\<^verbatim>\<open>str.lower()\<close>: A to Z, and 192 to 222 without the multiplication sign 215.\<close>

definition lower_char :: "char \<Rightarrow> char" where
  "lower_char c =
     (if (65 \<le> code c \<and> code c \<le> 90) \<or> (192 \<le> code c \<and> code c \<le> 222 \<and> code c \<noteq> 215)
      then char_of (code c + 32) else c)"

definition lower :: "string \<Rightarrow> string" where
  "lower s = map lower_char s"

text \<open>\<^verbatim>\<open>s.strip(chars)\<close> removes the leading and trailing characters that satisfy \<open>p\<close>.\<close>

definition strip_with :: "(char \<Rightarrow> bool) \<Rightarrow> string \<Rightarrow> string" where
  "strip_with p s = rev (dropWhile p (rev (dropWhile p s)))"

definition strip :: "string \<Rightarrow> string" where
  "strip s = strip_with is_space s"

definition strip_chars :: "string \<Rightarrow> string \<Rightarrow> string" where
  "strip_chars cs s = strip_with (\<lambda>c. c \<in> set cs) s"

fun startswith :: "string \<Rightarrow> string \<Rightarrow> bool" where
  "startswith [] s = True"
| "startswith (a # w) [] = False"
| "startswith (a # w) (c # s) = (a = c \<and> startswith w s)"

text \<open>The substring test \<^verbatim>\<open>w in s\<close>.\<close>

fun str_in :: "string \<Rightarrow> string \<Rightarrow> bool" where
  "str_in w [] = (w = [])"
| "str_in w (c # s) = (startswith w (c # s) \<or> str_in w s)"

subsection \<open>Exceptions\<close>

datatype exn = OverflowError | TypeError | ValueError

text \<open>
  \<^verbatim>\<open>int(g)\<close> for a group \<open>g\<close> of a match: \<^verbatim>\<open>None\<close> raises \<^verbatim>\<open>TypeError\<close>, a string
  of decimal digits gives its value. The groups converted below are matched by \<^verbatim>\<open>\d\<close>, so
  other strings that \<^verbatim>\<open>int\<close> accepts (signs, blanks, underscores) are left out and raise
  here. A string of more than 4300 digits raises \<^verbatim>\<open>ValueError\<close>, leading zeros
  counted: the limit that \<^verbatim>\<open>int\<close> has by default for the conversion of a string.
\<close>

definition digit_val :: "char \<Rightarrow> int" where
  "digit_val c = int (code c) - 48"

definition py_int :: "string option \<Rightarrow> exn + int" where
  "py_int g =
     (case g of
        None \<Rightarrow> Inl TypeError
      | Some s \<Rightarrow>
          if s \<noteq> [] \<and> list_all is_digit s \<and> length s \<le> 4300
          then Inr (foldl (\<lambda>a c. 10 * a + digit_val c) 0 s)
          else Inl ValueError)"

text \<open>\<^verbatim>\<open>str.isdigit()\<close>: below 256 the digits and the superscripts 178, 179, 185.\<close>

definition isdigit :: "string \<Rightarrow> bool" where
  "isdigit s = (s \<noteq> [] \<and> list_all (\<lambda>c. is_digit c \<or> code c = 178 \<or> code c = 179 \<or> code c = 185) s)"

subsection \<open>Regular expressions\<close>

text \<open>
  The fragment of \<^verbatim>\<open>re\<close> that the patterns of the parser use: literals, greedy
  repetition \<^verbatim>\<open>{m,n}\<close>, \<^verbatim>\<open>+\<close>, \<^verbatim>\<open>*\<close> of a character class, greedy \<^verbatim>\<open>?\<close>,
  alternation, sequence and capturing groups. \<open>Grp i r\<close> is the group whose text is
  \<^verbatim>\<open>groups()[i]\<close>.
\<close>

datatype cls = Digit | Space

datatype regex =
    Lit string
  | Rep cls nat "nat option"
  | Opt regex
  | Alt regex regex
  | Seq regex regex
  | Grp nat regex

type_synonym groups = "string option list"

fun in_cls :: "cls \<Rightarrow> char \<Rightarrow> bool" where
  "in_cls Digit c = is_digit c"
| "in_cls Space c = is_space c"

text \<open>
  The texts left after a greedy repetition of a class, in the order the backtracking
  matcher tries them: the longest run first, down to the minimum.
\<close>

definition rep_rests :: "cls \<Rightarrow> nat \<Rightarrow> nat option \<Rightarrow> string \<Rightarrow> string list" where
  "rep_rests k m mx s =
     (let n = length (takeWhile (in_cls k) s);
          hi = (case mx of None \<Rightarrow> n | Some x \<Rightarrow> min n x)
      in map (\<lambda>j. drop j s) (rev [m ..< Suc hi]))"

text \<open>
  \<open>matches r s g\<close> lists the ways \<open>r\<close> matches a prefix of \<open>s\<close>, each with the text that is
  left and the groups, in the order of the backtracking search: the head is the match
  that \<^verbatim>\<open>re\<close> reports at this position.
\<close>

fun matches :: "regex \<Rightarrow> string \<Rightarrow> groups \<Rightarrow> (string \<times> groups) list" where
  "matches (Lit w) s g = (if startswith w s then [(drop (length w) s, g)] else [])"
| "matches (Rep k m mx) s g = map (\<lambda>r. (r, g)) (rep_rests k m mx s)"
| "matches (Opt r) s g = matches r s g @ [(s, g)]"
| "matches (Alt a b) s g = matches a s g @ matches b s g"
| "matches (Seq a b) s g = concat (map (\<lambda>(s', g'). matches b s' g') (matches a s g))"
| "matches (Grp i r) s g =
     map (\<lambda>(s', g'). (s', g'[i := Some (take (length s - length s') s)])) (matches r s g)"

definition match_here :: "regex \<Rightarrow> nat \<Rightarrow> string \<Rightarrow> (string \<times> groups) option" where
  "match_here r n s = (case matches r s (replicate n None) of [] \<Rightarrow> None | m # _ \<Rightarrow> Some m)"

text \<open>
  \<^verbatim>\<open>re.search\<close> for a pattern with \<open>n\<close> groups: the match at the leftmost position that
  has one, as the text after the match and the groups.
\<close>

fun re_search :: "regex \<Rightarrow> nat \<Rightarrow> string \<Rightarrow> (string \<times> groups) option" where
  "re_search r n [] = match_here r n []"
| "re_search r n (c # s) =
     (case match_here r n (c # s) of Some m \<Rightarrow> Some m | None \<Rightarrow> re_search r n s)"

text \<open>
  \<^verbatim>\<open>re.sub(r, '', s)\<close>: the non-overlapping matches are removed from left to right. An
  empty match removes nothing and the scan moves on by one character.
\<close>

function re_sub :: "regex \<Rightarrow> nat \<Rightarrow> string \<Rightarrow> string" where
  "re_sub r n [] = []"
| "re_sub r n (c # s) =
     (case match_here r n (c # s) of
        None \<Rightarrow> c # re_sub r n s
      | Some (rest, g) \<Rightarrow>
          if length rest < length (c # s) then re_sub r n rest else c # re_sub r n s)"
  by pat_completeness auto
termination
  by (relation "measure (\<lambda>(r, n, s). length s)") auto

definition seqs :: "regex list \<Rightarrow> regex" where
  "seqs rs = foldr Seq rs (Lit [])"

definition alts :: "string list \<Rightarrow> regex" where
  "alts ws = foldr (\<lambda>w r. Alt (Lit w) r) (butlast ws) (Lit (last ws))"

definition am_pm :: regex where
  "am_pm = Alt (Lit ''am'') (Lit ''pm'')"

subsection \<open>Dates and times\<close>

text \<open>
  A \<^verbatim>\<open>datetime\<close> without time zone: the day as its proleptic Gregorian ordinal
  (\<^verbatim>\<open>toordinal()\<close>, 1 for 0001-01-01, 3652059 for 9999-12-31) and the time of day. A
  \<^verbatim>\<open>date\<close> is the ordinal alone.
\<close>

record datetime =
  ordinal :: int
  hour :: int
  minute :: int
  second :: int
  microsecond :: int

definition MAXORDINAL :: int where
  "MAXORDINAL = 3652059"

definition valid_datetime :: "datetime \<Rightarrow> bool" where
  "valid_datetime d =
     (1 \<le> ordinal d \<and> ordinal d \<le> MAXORDINAL \<and> 0 \<le> hour d \<and> hour d \<le> 23
      \<and> 0 \<le> minute d \<and> minute d \<le> 59 \<and> 0 \<le> second d \<and> second d \<le> 59
      \<and> 0 \<le> microsecond d \<and> microsecond d \<le> 999999)"

text \<open>\<^verbatim>\<open>weekday()\<close>: Monday is 0 and Sunday is 6; day 1 is a Monday.\<close>

definition weekday :: "datetime \<Rightarrow> int" where
  "weekday d = (ordinal d + 6) mod 7"

record timedelta =
  days :: int
  seconds :: int

text \<open>
  \<^verbatim>\<open>timedelta(days=d, hours=h)\<close>, normalised; more than 999999999 days in either
  direction raise \<^verbatim>\<open>OverflowError\<close>.
\<close>

definition mk_timedelta :: "int \<Rightarrow> int \<Rightarrow> exn + timedelta" where
  "mk_timedelta d h =
     (let total = d * 86400 + h * 3600;
          dd = total div 86400
      in if dd < - 999999999 \<or> 999999999 < dd then Inl OverflowError
         else Inr \<lparr>days = dd, seconds = total mod 86400\<rparr>)"

text \<open>
  \<^verbatim>\<open>dt + td\<close>: a day outside 1 to 3652059 raises \<^verbatim>\<open>OverflowError\<close>.
\<close>

definition dt_add :: "datetime \<Rightarrow> timedelta \<Rightarrow> exn + datetime" where
  "dt_add dt td =
     (let total = hour dt * 3600 + minute dt * 60 + second dt + seconds td;
          d = ordinal dt + days td + total div 86400;
          s = total mod 86400
      in if 0 < d \<and> d \<le> MAXORDINAL
         then Inr \<lparr>ordinal = d, hour = s div 3600, minute = (s mod 3600) div 60,
                   second = s mod 60, microsecond = microsecond dt\<rparr>
         else Inl OverflowError)"

text \<open>\<^verbatim>\<open>now + timedelta(days=d, hours=h)\<close>.\<close>

definition plus_delta :: "datetime \<Rightarrow> int \<Rightarrow> int \<Rightarrow> exn + datetime" where
  "plus_delta dt d h =
     (case mk_timedelta d h of Inl e \<Rightarrow> Inl e | Inr td \<Rightarrow> dt_add dt td)"

text \<open>
  \<^verbatim>\<open>datetime.combine(target_date, datetime.min.time().replace(hour=hour, minute=minute))\<close>:
  \<^verbatim>\<open>replace\<close> raises \<^verbatim>\<open>ValueError\<close> with the message given here as \<open>Inl\<close>, the hour
  checked first.
\<close>

definition combine :: "int \<Rightarrow> int \<Rightarrow> int \<Rightarrow> string + datetime" where
  "combine target_date h m =
     (if \<not> (0 \<le> h \<and> h \<le> 23) then Inl ''hour must be in 0..23''
      else if \<not> (0 \<le> m \<and> m \<le> 59) then Inl ''minute must be in 0..59''
      else Inr \<lparr>ordinal = target_date, hour = h, minute = m, second = 0, microsecond = 0\<rparr>)"

subsection \<open>The parser\<close>

text \<open>The patterns, each with its number of groups.\<close>

definition time_patterns :: "(regex \<times> nat) list" where
  "time_patterns =
     [(seqs [Lit ''at'', Rep Space 1 None, Grp 0 (Rep Digit 1 (Some 2)), Opt (Lit '':''),
             Opt (Grp 1 (Rep Digit 2 (Some 2))), Rep Space 0 None, Opt (Grp 2 am_pm)], 3),
      (seqs [Grp 0 (Rep Digit 1 (Some 2)), Lit '':'', Grp 1 (Rep Digit 2 (Some 2)),
             Rep Space 0 None, Opt (Grp 2 am_pm)], 3),
      (seqs [Grp 0 (Rep Digit 1 (Some 2)), Rep Space 0 None, Grp 1 am_pm], 2)]"

definition day_map :: "(string \<times> int) list" where
  "day_map =
     [(''monday'', 0), (''tuesday'', 1), (''wednesday'', 2), (''thursday'', 3),
      (''friday'', 4), (''saturday'', 5), (''sunday'', 6)]"

text \<open>\<^verbatim>\<open>in\s+(\d+)\s*hours?\<close>\<close>

definition in_hours_re :: regex where
  "in_hours_re =
     seqs [Lit ''in'', Rep Space 1 None, Grp 0 (Rep Digit 1 None), Rep Space 0 None,
           Lit ''hour'', Opt (Lit ''s'')]"

text \<open>\<^verbatim>\<open>in\s+\d+\s*hours?\<close>\<close>

definition in_hours_strip_re :: regex where
  "in_hours_strip_re =
     seqs [Lit ''in'', Rep Space 1 None, Rep Digit 1 None, Rep Space 0 None,
           Lit ''hour'', Opt (Lit ''s'')]"

text \<open>\<^verbatim>\<open>(next\s+)?(today|tomorrow|monday|tuesday|wednesday|thursday|friday|saturday|sunday)\<close>\<close>

definition day_strip_re :: regex where
  "day_strip_re =
     seqs [Opt (Grp 0 (Seq (Lit ''next'') (Rep Space 1 None))),
           Grp 1 (alts [''today'', ''tomorrow'', ''monday'', ''tuesday'', ''wednesday'',
                        ''thursday'', ''friday'', ''saturday'', ''sunday''])]"

text \<open>\<^verbatim>\<open>at\s+\d{1,2}:?\d{0,2}\s*(am|pm)?\<close>\<close>

definition at_strip_re :: regex where
  "at_strip_re =
     seqs [Lit ''at'', Rep Space 1 None, Rep Digit 1 (Some 2), Opt (Lit '':''),
           Rep Digit 0 (Some 2), Rep Space 0 None, Opt (Grp 0 am_pm)]"

text \<open>\<^verbatim>\<open>\d{1,2}:\d{2}\s*(am|pm)?\<close>\<close>

definition colon_strip_re :: regex where
  "colon_strip_re =
     seqs [Rep Digit 1 (Some 2), Lit '':'', Rep Digit 2 (Some 2), Rep Space 0 None,
           Opt (Grp 0 am_pm)]"

text \<open>\<^verbatim>\<open>\d{1,2}\s*(am|pm)\<close>\<close>

definition bare_strip_re :: regex where
  "bare_strip_re = seqs [Rep Digit 1 (Some 2), Rep Space 0 None, Grp 0 am_pm]"

definition group :: "groups \<Rightarrow> nat \<Rightarrow> string option" where
  "group g i = (if i < length g then g ! i else None)"

definition no_time_message :: string where
  "no_time_message =
     ''Couldn'' @ [CHR 0x27] @ ''t find a time. Try: '' @ [CHR 0x27] @ ''tomorrow at 2pm''
     @ [CHR 0x27] @ '' or '' @ [CHR 0x27] @ ''monday 3:30pm'' @ [CHR 0x27]"

text \<open>
  The loop over \<^verbatim>\<open>time_patterns\<close>: the first pattern that is found gives the hour, the
  minute (0 when its group took no part) and the period; \<open>Inr None\<close> when no pattern is
  found.
\<close>

fun find_time :: "(regex \<times> nat) list \<Rightarrow> string \<Rightarrow> exn + (int \<times> int \<times> string option) option" where
  "find_time [] text = Inr None"
| "find_time ((pattern, n) # ps) text =
     (case re_search pattern n text of
        None \<Rightarrow> find_time ps text
      | Some (rest, g) \<Rightarrow>
          (case py_int (group g 0) of
             Inl e \<Rightarrow> Inl e
           | Inr h \<Rightarrow>
               if length g = 3 then
                 (case (if group g 1 \<noteq> None \<and> group g 1 \<noteq> Some [] \<and> isdigit (the (group g 1))
                        then py_int (group g 1) else Inr 0) of
                    Inl e \<Rightarrow> Inl e
                  | Inr m \<Rightarrow>
                      Inr (Some (h, m, if group g 2 \<noteq> None \<and> group g 2 \<noteq> Some []
                                       then group g 2 else None)))
               else if length g = 2 then
                 (if group g 1 = Some ''am'' \<or> group g 1 = Some ''pm''
                  then Inr (Some (h, 0, group g 1))
                  else if group g 1 \<noteq> None \<and> group g 1 \<noteq> Some [] \<and> isdigit (the (group g 1))
                  then (case py_int (group g 1) of
                          Inl e \<Rightarrow> Inl e | Inr m \<Rightarrow> Inr (Some (h, m, None)))
                  else Inr (Some (h, 0, None)))
               else Inr (Some (h, 0, None))))"

text \<open>The conversion to the 24 hour clock.\<close>

definition to_24h :: "int \<Rightarrow> string option \<Rightarrow> int" where
  "to_24h h period =
     (if period = Some ''pm'' \<and> h < 12 then h + 12
      else if period = Some ''am'' \<and> h = 12 then 0
      else h)"

text \<open>
  The loop over \<^verbatim>\<open>day_map\<close>: the first name, in the order of the table, that occurs in
  the text decides, and the loop ends there.
\<close>

fun find_weekday :: "(string \<times> int) list \<Rightarrow> string \<Rightarrow> int option" where
  "find_weekday [] text = None"
| "find_weekday ((day_name, wd) # ds) text =
     (if str_in day_name text then Some wd else find_weekday ds text)"

definition days_ahead :: "int \<Rightarrow> datetime \<Rightarrow> string \<Rightarrow> int" where
  "days_ahead wd now text =
     (let d = wd - weekday now
      in if d \<le> 0 then
           (if str_in ''next'' text then d + 7
            else if d < 0 then d + 7
            else d)
         else d)"

definition find_date :: "string \<Rightarrow> datetime \<Rightarrow> exn + int" where
  "find_date text now =
     (if str_in ''tomorrow'' text then
        (case plus_delta now 1 0 of Inl e \<Rightarrow> Inl e | Inr t \<Rightarrow> Inr (ordinal t))
      else if str_in ''today'' text then Inr (ordinal now)
      else
        (case find_weekday day_map text of
           None \<Rightarrow> Inr (ordinal now)
         | Some wd \<Rightarrow>
             (case plus_delta now (days_ahead wd now text) 0 of
                Inl e \<Rightarrow> Inl e | Inr t \<Rightarrow> Inr (ordinal t))))"

text \<open>\<^verbatim>\<open>re.search(r'in\s+(\d+)\s*hours?', text)\<close>\<close>

definition in_hours_match :: "string \<Rightarrow> (string \<times> groups) option" where
  "in_hours_match text = re_search in_hours_re 1 text"

text \<open>The title: the text without the day and time phrases.\<close>

definition extract_title :: "string \<Rightarrow> string option" where
  "extract_title text =
     (let title = re_sub day_strip_re 2 text;
          title = re_sub at_strip_re 1 title;
          title = re_sub colon_strip_re 1 title;
          title = re_sub bare_strip_re 1 title;
          title = strip_chars '' ,-:'' title
      in if title \<noteq> [] then Some title else None)"

definition in_hours_title :: "string \<Rightarrow> string option" where
  "in_hours_title text =
     (let title = strip (re_sub in_hours_strip_re 0 text)
      in if title \<noteq> [] then Some title else None)"

text \<open>
  \<^verbatim>\<open>_parse_natural_time\<close>. \<open>Inl\<close> is an exception that leaves the function; \<open>Inr\<close> is
  the returned pair \<^verbatim>\<open>(datetime, title)\<close> or \<^verbatim>\<open>(None, error_message)\<close>.
\<close>

definition parse_natural_time :: "string \<Rightarrow> datetime \<Rightarrow> exn + (datetime option \<times> string option)" where
  "parse_natural_time text0 now =
     (let text = strip (lower text0) in
      case in_hours_match text of
        Some (rest, g) \<Rightarrow>
          (case py_int (group g 0) of
             Inl e \<Rightarrow> Inl e
           | Inr hours \<Rightarrow>
               (case plus_delta now 0 hours of
                  Inl e \<Rightarrow> Inl e
                | Inr target \<Rightarrow> Inr (Some target, in_hours_title text)))
      | None \<Rightarrow>
          (case find_time time_patterns text of
             Inl e \<Rightarrow> Inl e
           | Inr None \<Rightarrow> Inr (None, Some no_time_message)
           | Inr (Some (h, m, period)) \<Rightarrow>
               (case find_date text now of
                  Inl e \<Rightarrow> Inl e
                | Inr target_date \<Rightarrow>
                    (case combine target_date (to_24h h period) m of
                       Inl detail \<Rightarrow> Inr (None, Some (''Invalid time: '' @ detail))
                     | Inr target \<Rightarrow> Inr (Some target, extract_title text)))))"

subsection \<open>Notions used in the statements\<close>

text \<open>
  These are not part of the program. \<open>needs_digit r\<close> holds when every match of \<open>r\<close>
  takes at least one digit, and \<open>needs_one ws r\<close> when every match of \<open>r\<close> takes one of
  the literals \<open>ws\<close>; \<open>digit_free s\<close> says that \<open>s\<close> has no digit, and
  \<open>none_in ws s\<close> that none of the strings \<open>ws\<close> occurs in \<open>s\<close>;
  \<open>epoch_seconds\<close> counts the seconds from the start of day 0 to a time, so that
  adding hours to a time can be stated.
\<close>

fun needs_digit :: "regex \<Rightarrow> bool" where
  "needs_digit (Lit w) = False"
| "needs_digit (Rep k m mx) = (k = Digit \<and> 0 < m)"
| "needs_digit (Opt r) = False"
| "needs_digit (Alt a b) = (needs_digit a \<and> needs_digit b)"
| "needs_digit (Seq a b) = (needs_digit a \<or> needs_digit b)"
| "needs_digit (Grp i r) = needs_digit r"

definition digit_free :: "string \<Rightarrow> bool" where
  "digit_free s = list_all (\<lambda>c. \<not> is_digit c) s"

fun needs_one :: "string list \<Rightarrow> regex \<Rightarrow> bool" where
  "needs_one ws (Lit w) = (w \<in> set ws)"
| "needs_one ws (Rep k m mx) = False"
| "needs_one ws (Opt r) = False"
| "needs_one ws (Alt a b) = (needs_one ws a \<and> needs_one ws b)"
| "needs_one ws (Seq a b) = (needs_one ws a \<or> needs_one ws b)"
| "needs_one ws (Grp i r) = needs_one ws r"

definition none_in :: "string list \<Rightarrow> string \<Rightarrow> bool" where
  "none_in ws s = list_all (\<lambda>w. \<not> str_in w s) ws"

definition epoch_seconds :: "datetime \<Rightarrow> int" where
  "epoch_seconds d = ordinal d * 86400 + hour d * 3600 + minute d * 60 + second d"

text \<open>A reference time for the examples: Friday 2024-03-15, 08:00.\<close>

definition friday_morning :: datetime where
  "friday_morning = \<lparr>ordinal = 738960, hour = 8, minute = 0, second = 0, microsecond = 0\<rparr>"

section \<open>Properties\<close>

subsection \<open>The two branches of the parser\<close>

lemma parse_without_offset:
  "in_hours_match (strip (lower text)) = None \<Longrightarrow>
   parse_natural_time text now =
     (case find_time time_patterns (strip (lower text)) of
        Inl e \<Rightarrow> Inl e
      | Inr None \<Rightarrow> Inr (None, Some no_time_message)
      | Inr (Some (h, m, period)) \<Rightarrow>
          (case find_date (strip (lower text)) now of
             Inl e \<Rightarrow> Inl e
           | Inr target_date \<Rightarrow>
               (case combine target_date (to_24h h period) m of
                  Inl detail \<Rightarrow> Inr (None, Some (''Invalid time: '' @ detail))
                | Inr target \<Rightarrow> Inr (Some target, extract_title (strip (lower text))))))"
  by (simp add: parse_natural_time_def Let_def)

lemma parse_with_offset:
  "in_hours_match (strip (lower text)) = Some (rest, g) \<Longrightarrow>
   parse_natural_time text now =
     (case py_int (group g 0) of
        Inl e \<Rightarrow> Inl e
      | Inr hours \<Rightarrow>
          (case plus_delta now 0 hours of
             Inl e \<Rightarrow> Inl e
           | Inr target \<Rightarrow> Inr (Some target, in_hours_title (strip (lower text)))))"
  by (simp add: parse_natural_time_def Let_def)

lemma find_time_none:
  "list_all (\<lambda>(p, n). re_search p n t = None) ps \<Longrightarrow> find_time ps t = Inr None"
  by (induction ps) auto

lemma friday_morning_valid: "valid_datetime friday_morning"
  by (simp add: valid_datetime_def friday_morning_def MAXORDINAL_def)

lemma day_seconds_nonneg:
  "valid_datetime now \<Longrightarrow> 0 \<le> hour now * 3600 + minute now * 60 + second now"
  by (simp add: valid_datetime_def)

subsection \<open>No time of day in the text\<close>

text \<open>
  C7. When the text has no phrase ``in N hours'' and none of the three patterns of the
  time of day is found anywhere in it, the parser returns the failure whose reason is
  exactly the string ``Couldn't find a time. Try: 'tomorrow at 2pm' or 'monday 3:30pm'''.
  The apostrophes of the string are written \<open>CHR 0x27\<close> in the statement.
\<close>

theorem no_time_pattern_fails:
  assumes "in_hours_match (strip (lower text)) = None"
    and "list_all (\<lambda>(p, n). re_search p n (strip (lower text)) = None) time_patterns"
  shows "parse_natural_time text now =
           Inr (None, Some (''Couldn'' @ [CHR 0x27] @ ''t find a time. Try: '' @ [CHR 0x27]
                         @ ''tomorrow at 2pm'' @ [CHR 0x27] @ '' or '' @ [CHR 0x27]
                         @ ''monday 3:30pm'' @ [CHR 0x27]))"
  using assms by (simp add: parse_without_offset find_time_none no_time_message_def)

text \<open>The text ``Lunch with Bob'' is such an input.\<close>

theorem no_time_pattern_fails_witness:
  "in_hours_match (strip (lower ''Lunch with Bob'')) = None
   \<and> list_all (\<lambda>(p, n). re_search p n (strip (lower ''Lunch with Bob'')) = None) time_patterns
   \<and> parse_natural_time ''Lunch with Bob'' friday_morning =
           Inr (None, Some (''Couldn'' @ [CHR 0x27] @ ''t find a time. Try: '' @ [CHR 0x27]
                         @ ''tomorrow at 2pm'' @ [CHR 0x27] @ '' or '' @ [CHR 0x27]
                         @ ''monday 3:30pm'' @ [CHR 0x27]))"
proof -
  have a: "in_hours_match (strip (lower ''Lunch with Bob'')) = None"
    by code_simp
  have b: "list_all (\<lambda>(p, n). re_search p n (strip (lower ''Lunch with Bob'')) = None) time_patterns"
    by code_simp
  from a b no_time_pattern_fails [OF a b, of friday_morning] show ?thesis
    by blast
qed

subsection \<open>Exceptions that leave the parser\<close>

lemma offset_overflow_text:
  "strip (lower ''in 99999999 hours'') = ''in 99999999 hours''"
  "in_hours_match ''in 99999999 hours'' = Some ([], [Some ''99999999''])"
  "py_int (group [Some ''99999999''] 0) = Inr 99999999"
  by code_simp+

text \<open>
  C3. The claim is that the parser returns for every input. On the text
  ``in 99999999 hours'' the sum \<^verbatim>\<open>now + timedelta(hours=hours)\<close> lies after the year
  9999 for every reference time, and the \<^verbatim>\<open>OverflowError\<close> of the addition leaves the
  function: that branch has no handler, unlike the \<^verbatim>\<open>ValueError\<close> of an hour or minute
  out of range.
\<close>

theorem offset_overflow_raises:
  assumes "valid_datetime now"
  shows "parse_natural_time ''in 99999999 hours'' now = Inl OverflowError"
proof -
  have "0 \<le> (hour now * 3600 + minute now * 60 + second now + 54000) div 86400"
    using day_seconds_nonneg [OF assms] by (simp add: pos_imp_zdiv_nonneg_iff)
  moreover have "1 \<le> ordinal now"
    using assms by (simp add: valid_datetime_def)
  ultimately have "plus_delta now 0 99999999 = Inl OverflowError"
    by (simp add: plus_delta_def mk_timedelta_def dt_add_def MAXORDINAL_def Let_def)
  then show ?thesis
    by (simp add: parse_with_offset [where rest = "[]" and g = "[Some ''99999999'']"]
        offset_overflow_text)
qed

text \<open>The reference time of the examples is a valid one.\<close>

theorem offset_overflow_raises_witness:
  "valid_datetime friday_morning
   \<and> parse_natural_time ''in 99999999 hours'' friday_morning = Inl OverflowError"
proof -
  have v: "valid_datetime friday_morning"
    by (rule friday_morning_valid)
  from v offset_overflow_raises [OF v] show ?thesis by simp
qed

subsection \<open>Resolved results and the date\<close>

lemma plus_delta_days:
  assumes "valid_datetime now" and "plus_delta now d 0 = Inr t"
  shows "ordinal t = ordinal now + d"
proof -
  have "0 \<le> hour now * 3600 + minute now * 60 + second now"
    and "hour now * 3600 + minute now * 60 + second now < 86400"
    using assms(1) by (simp_all add: valid_datetime_def)
  then have "(hour now * 3600 + minute now * 60 + second now) div 86400 = 0"
    by simp
  with assms(2) show ?thesis
    by (auto simp add: plus_delta_def mk_timedelta_def dt_add_def Let_def split: if_splits)
qed

lemma combine_fields:
  "combine d h m = Inr t \<Longrightarrow>
   ordinal t = d \<and> hour t = h \<and> minute t = m \<and> 0 \<le> h \<and> h \<le> 23 \<and> 0 \<le> m \<and> m \<le> 59"
  by (auto simp add: combine_def split: if_splits)

lemma resolved_without_offset:
  assumes "in_hours_match (strip (lower text)) = None"
    and "parse_natural_time text now = Inr (Some t, title)"
  obtains h m period d where
    "find_time time_patterns (strip (lower text)) = Inr (Some (h, m, period))"
    "find_date (strip (lower text)) now = Inr d"
    "combine d (to_24h h period) m = Inr t"
    "title = extract_title (strip (lower text))"
  using assms
  by (auto simp add: parse_without_offset split: sum.splits option.splits)

lemma resolved_with_offset:
  assumes "in_hours_match (strip (lower text)) = Some (rest, g)"
    and "parse_natural_time text now = Inr (Some t, title)"
  obtains hours where
    "py_int (group g 0) = Inr hours"
    "plus_delta now 0 hours = Inr t"
    "title = in_hours_title (strip (lower text))"
  using assms
  by (auto simp add: parse_with_offset split: sum.splits)

lemma weekday_range: "0 \<le> weekday now \<and> weekday now \<le> 6"
  by (simp add: weekday_def)

lemma find_weekday_range:
  "find_weekday day_map text = Some wd \<Longrightarrow> 0 \<le> wd \<and> wd \<le> 6"
  by (auto simp add: day_map_def split: if_splits)

subsection \<open>A weekday that is today\<close>

text \<open>
  C1, as the code has it. The claim is that a weekday name equal to the weekday of the
  reference time resolves to the date seven days later. The code adds the seven days only
  when the difference of the weekdays is negative, or when the text has ``next''; a
  difference of zero is left as it is. So with a weekday name that is the weekday of the
  reference time, without ``tomorrow'', ``today'', ``next'' and without an offset phrase,
  every resolved date is the reference date itself.
\<close>

theorem weekday_today_resolves_to_today:
  assumes "valid_datetime now"
    and "in_hours_match (strip (lower text)) = None"
    and "\<not> str_in ''tomorrow'' (strip (lower text))"
    and "\<not> str_in ''today'' (strip (lower text))"
    and "\<not> str_in ''next'' (strip (lower text))"
    and "find_weekday day_map (strip (lower text)) = Some (weekday now)"
    and "parse_natural_time text now = Inr (Some t, title)"
  shows "ordinal t = ordinal now"
proof -
  from assms(2,7) obtain h m period d where
    d: "find_date (strip (lower text)) now = Inr d"
    and t: "combine d (to_24h h period) m = Inr t"
    by (rule resolved_without_offset)
  from d assms(3-6) obtain u where "plus_delta now 0 0 = Inr u" and "d = ordinal u"
    by (auto simp add: find_date_def days_ahead_def split: sum.splits)
  with plus_delta_days [OF assms(1)] have "d = ordinal now"
    by fastforce
  with combine_fields [OF t] show ?thesis
    by simp
qed

text \<open>
  The text ``friday 10am doctor on a Friday morning satisfies the hypotheses.
\<close>

theorem weekday_today_resolves_to_today_witness:
  "valid_datetime friday_morning
   \<and> in_hours_match (strip (lower ''friday 10am doctor'')) = None
   \<and> \<not> str_in ''tomorrow'' (strip (lower ''friday 10am doctor''))
   \<and> \<not> str_in ''today'' (strip (lower ''friday 10am doctor''))
   \<and> \<not> str_in ''next'' (strip (lower ''friday 10am doctor''))
   \<and> find_weekday day_map (strip (lower ''friday 10am doctor'')) = Some (weekday friday_morning)
   \<and> parse_natural_time ''friday 10am doctor'' friday_morning =
        Inr (Some \<lparr>ordinal = 738960, hour = 10, minute = 0, second = 0, microsecond = 0\<rparr>,
             Some ''doctor'')
   \<and> ordinal \<lparr>ordinal = 738960, hour = 10, minute = 0, second = 0, microsecond = 0\<rparr> =
        ordinal friday_morning"
proof -
  have h2: "in_hours_match (strip (lower ''friday 10am doctor'')) = None"
    by code_simp
  have h3: "\<not> str_in ''tomorrow'' (strip (lower ''friday 10am doctor''))"
    by code_simp
  have h4: "\<not> str_in ''today'' (strip (lower ''friday 10am doctor''))"
    by code_simp
  have h5: "\<not> str_in ''next'' (strip (lower ''friday 10am doctor''))"
    by code_simp
  have h6: "find_weekday day_map (strip (lower ''friday 10am doctor'')) = Some (weekday friday_morning)"
    by code_simp
  have h7: "parse_natural_time ''friday 10am doctor'' friday_morning =
        Inr (Some \<lparr>ordinal = 738960, hour = 10, minute = 0, second = 0, microsecond = 0\<rparr>,
             Some ''doctor'')"
    by code_simp
  note weekday_today_resolves_to_today [OF friday_morning_valid h2 h3 h4 h5 h6 h7]
  with friday_morning_valid h2 h3 h4 h5 h6 h7 show ?thesis
    by blast
qed

text \<open>
  The claim of C1 fails on its own example: ``friday 10am doctor'' on Friday 2024-03-15
  (day 738960, weekday 4) resolves to 10:00 of the same day 738960, not of day 738967.
\<close>

theorem weekday_today_counterexample:
  "weekday friday_morning = 4
   \<and> find_weekday day_map ''friday 10am doctor'' = Some 4
   \<and> ordinal friday_morning = 738960
   \<and> parse_natural_time ''friday 10am doctor'' friday_morning =
        Inr (Some \<lparr>ordinal = 738960, hour = 10, minute = 0, second = 0, microsecond = 0\<rparr>,
             Some ''doctor'')"
  by code_simp

subsection \<open>The word ``next'' before a weekday\<close>

text \<open>
  C2, as the code has it. The claim is that ``next'' with a weekday name resolves to a
  date at least seven days after the reference date. The code looks at ``next'' only when
  the difference of the weekdays is zero or negative, and adds seven days once. So the
  resolved date is the named weekday, between one and seven days after the reference
  date, and seven days after it exactly when the reference date is that weekday.
\<close>

theorem next_weekday_within_a_week:
  assumes "valid_datetime now"
    and "in_hours_match (strip (lower text)) = None"
    and "\<not> str_in ''tomorrow'' (strip (lower text))"
    and "\<not> str_in ''today'' (strip (lower text))"
    and "str_in ''next'' (strip (lower text))"
    and "find_weekday day_map (strip (lower text)) = Some wd"
    and "parse_natural_time text now = Inr (Some t, title)"
  shows "weekday t = wd \<and> 1 \<le> ordinal t - ordinal now \<and> ordinal t - ordinal now \<le> 7
         \<and> (ordinal t - ordinal now = 7 \<longleftrightarrow> wd = weekday now)"
proof -
  from assms(2,7) obtain h m period d where
    d: "find_date (strip (lower text)) now = Inr d"
    and t: "combine d (to_24h h period) m = Inr t"
    by (rule resolved_without_offset)
  define k where "k = wd - weekday now"
  have k: "- 6 \<le> k \<and> k \<le> 6"
    using weekday_range [of now] find_weekday_range [OF assms(6)] by (simp add: k_def)
  from d assms(3-6) obtain u
    where "plus_delta now (if k \<le> 0 then k + 7 else k) 0 = Inr u" and "d = ordinal u"
    by (auto simp add: find_date_def days_ahead_def k_def Let_def split: sum.splits if_splits)
  with plus_delta_days [OF assms(1)] have "d = ordinal now + (if k \<le> 0 then k + 7 else k)"
    by fastforce
  with combine_fields [OF t] have o: "ordinal t = ordinal now + (if k \<le> 0 then k + 7 else k)"
    by simp
  have "ordinal now + 6 - (ordinal now + 6) mod 7 = 7 * ((ordinal now + 6) div 7)"
    by (rule minus_mod_eq_mult_div)
  then have "ordinal now + 6 + k = wd + 7 * ((ordinal now + 6) div 7)"
    by (simp add: k_def weekday_def)
  then have "(ordinal now + 6 + k) mod 7 = wd mod 7"
    by (simp only: mod_mult_self2)
  then have w: "(ordinal now + 6 + k) mod 7 = wd"
    using find_weekday_range [OF assms(6)] by simp
  have "(ordinal t + 6) mod 7 = (ordinal now + 6 + k) mod 7"
  proof (cases "k \<le> 0")
    case True
    with o have "ordinal t + 6 = ordinal now + 6 + k + 7" by simp
    then show ?thesis by (simp only: mod_add_self2)
  next
    case False
    with o show ?thesis by (simp add: add.assoc add.commute)
  qed
  with w have "weekday t = wd"
    by (simp add: weekday_def)
  moreover have "1 \<le> ordinal t - ordinal now \<and> ordinal t - ordinal now \<le> 7"
    using o k by (simp split: if_splits)
  moreover have "ordinal t - ordinal now = 7 \<longleftrightarrow> wd = weekday now"
    using o k by (auto simp add: k_def split: if_splits)
  ultimately show ?thesis
    by blast
qed

text \<open>
  The text ``next monday 3pm call on a Friday morning satisfies the hypotheses.
\<close>

theorem next_weekday_within_a_week_witness:
  "valid_datetime friday_morning
   \<and> in_hours_match (strip (lower ''next monday 3pm call'')) = None
   \<and> \<not> str_in ''tomorrow'' (strip (lower ''next monday 3pm call''))
   \<and> \<not> str_in ''today'' (strip (lower ''next monday 3pm call''))
   \<and> str_in ''next'' (strip (lower ''next monday 3pm call''))
   \<and> find_weekday day_map (strip (lower ''next monday 3pm call'')) = Some 0
   \<and> parse_natural_time ''next monday 3pm call'' friday_morning =
        Inr (Some \<lparr>ordinal = 738963, hour = 15, minute = 0, second = 0, microsecond = 0\<rparr>,
             Some ''call'')
   \<and> weekday \<lparr>ordinal = 738963, hour = 15, minute = 0, second = 0, microsecond = 0\<rparr> = 0
   \<and> 1 \<le> ordinal \<lparr>ordinal = 738963, hour = 15, minute = 0, second = 0, microsecond = 0\<rparr>
          - ordinal friday_morning
   \<and> ordinal \<lparr>ordinal = 738963, hour = 15, minute = 0, second = 0, microsecond = 0\<rparr>
          - ordinal friday_morning \<le> 7"
proof -
  have h2: "in_hours_match (strip (lower ''next monday 3pm call'')) = None"
    by code_simp
  have h3: "\<not> str_in ''tomorrow'' (strip (lower ''next monday 3pm call''))"
    by code_simp
  have h4: "\<not> str_in ''today'' (strip (lower ''next monday 3pm call''))"
    by code_simp
  have h5: "str_in ''next'' (strip (lower ''next monday 3pm call''))"
    by code_simp
  have h6: "find_weekday day_map (strip (lower ''next monday 3pm call'')) = Some 0"
    by code_simp
  have h7: "parse_natural_time ''next monday 3pm call'' friday_morning =
        Inr (Some \<lparr>ordinal = 738963, hour = 15, minute = 0, second = 0, microsecond = 0\<rparr>,
             Some ''call'')"
    by code_simp
  note next_weekday_within_a_week [OF friday_morning_valid h2 h3 h4 h5 h6 h7]
  with friday_morning_valid h2 h3 h4 h5 h6 h7 show ?thesis
    by blast
qed

text \<open>
  The claim of C2 fails: on Friday 2024-03-15 (day 738960) ``next monday 3pm'' resolves
  to day 738963, three days later, and ``next saturday 3pm'' to day 738961, the next day.
\<close>

theorem next_weekday_counterexample:
  "ordinal friday_morning = 738960
   \<and> parse_natural_time ''next monday 3pm'' friday_morning =
        Inr (Some \<lparr>ordinal = 738963, hour = 15, minute = 0, second = 0, microsecond = 0\<rparr>, None)
   \<and> parse_natural_time ''next saturday 3pm'' friday_morning =
        Inr (Some \<lparr>ordinal = 738961, hour = 15, minute = 0, second = 0, microsecond = 0\<rparr>, None)"
  by code_simp

subsection \<open>The pattern with ``at'' inside a word\<close>

lemma chat_text:
  "strip (lower ''chat 5 tomorrow'') = ''chat 5 tomorrow''"
  "in_hours_match ''chat 5 tomorrow'' = None"
  "find_time time_patterns ''chat 5 tomorrow'' = Inr (Some (5, 0, None))"
  "str_in ''tomorrow'' ''chat 5 tomorrow''"
  "extract_title ''chat 5 tomorrow'' = Some ''ch''"
  by code_simp+

lemma plus_delta_days_value:
  assumes "valid_datetime now" and "0 < ordinal now + d" and "ordinal now + d \<le> MAXORDINAL"
  shows "\<exists>t. plus_delta now d 0 = Inr t \<and> ordinal t = ordinal now + d"
proof -
  have "0 \<le> hour now * 3600 + minute now * 60 + second now"
    and "hour now * 3600 + minute now * 60 + second now < 86400"
    using assms(1) by (simp_all add: valid_datetime_def)
  then have "(hour now * 3600 + minute now * 60 + second now) div 86400 = 0"
    by simp
  moreover have "1 \<le> ordinal now" and "ordinal now \<le> 3652059"
    using assms(1) by (simp_all add: valid_datetime_def MAXORDINAL_def)
  ultimately show ?thesis
    using assms(2,3)
    by (simp add: plus_delta_def mk_timedelta_def dt_add_def Let_def MAXORDINAL_def)
qed

text \<open>
  C10. The pattern with ``at'' has no word boundary: in ``chat 5 tomorrow'' it is found
  in ``chat 5'', and the parser resolves 05:00 of the day after the reference date, with
  the title ``ch'', instead of failing for want of a time.
\<close>

theorem at_inside_word_resolves:
  assumes "valid_datetime now" and "ordinal now < MAXORDINAL"
  shows "parse_natural_time ''chat 5 tomorrow'' now =
           Inr (Some \<lparr>ordinal = ordinal now + 1, hour = 5, minute = 0, second = 0,
                      microsecond = 0\<rparr>, Some ''ch'')"
proof -
  have "0 < ordinal now + 1" and "ordinal now + 1 \<le> MAXORDINAL"
    using assms by (simp_all add: valid_datetime_def)
  with plus_delta_days_value [OF assms(1)] obtain t
    where "plus_delta now 1 0 = Inr t" and "ordinal t = ordinal now + 1"
    by blast
  then have "find_date ''chat 5 tomorrow'' now = Inr (ordinal now + 1)"
    by (simp add: find_date_def chat_text)
  then show ?thesis
    by (simp add: parse_without_offset chat_text combine_def to_24h_def)
qed

text \<open>
  A Friday morning as the reference time.
\<close>

theorem at_inside_word_resolves_witness:
  "valid_datetime friday_morning \<and> ordinal friday_morning < MAXORDINAL
   \<and> parse_natural_time ''chat 5 tomorrow'' friday_morning =
       Inr (Some \<lparr>ordinal = ordinal friday_morning + 1, hour = 5, minute = 0, second = 0,
                  microsecond = 0\<rparr>, Some ''ch'')"
proof -
  have b: "ordinal friday_morning < MAXORDINAL"
    by (simp add: friday_morning_def MAXORDINAL_def)
  from friday_morning_valid b at_inside_word_resolves [OF friday_morning_valid b]
  show ?thesis by blast
qed

subsection \<open>A bare hour\<close>

lemma bare_hour_text:
  "strip (lower ''at 15'') = ''at 15''"
  "in_hours_match ''at 15'' = None"
  "find_time time_patterns ''at 15'' = Inr (Some (15, 0, None))"
  "find_weekday day_map ''at 15'' = None"
  "\<not> str_in ''tomorrow'' ''at 15''"
  "\<not> str_in ''today'' ''at 15''"
  "extract_title ''at 15'' = None"
  "strip (lower ''at 3'') = ''at 3''"
  "in_hours_match ''at 3'' = None"
  "find_time time_patterns ''at 3'' = Inr (Some (3, 0, None))"
  "find_weekday day_map ''at 3'' = None"
  "\<not> str_in ''tomorrow'' ''at 3''"
  "\<not> str_in ''today'' ''at 3''"
  "extract_title ''at 3'' = None"
  "strip (lower ''15'') = ''15''"
  "in_hours_match ''15'' = None"
  "find_time time_patterns ''15'' = Inr None"
  "strip (lower ''3'') = ''3''"
  "in_hours_match ''3'' = None"
  "find_time time_patterns ''3'' = Inr None"
  by code_simp+

lemma str_in_drop: "str_in w (drop j s) \<Longrightarrow> str_in w s"
proof (induction s arbitrary: j)
  case Nil
  then show ?case by simp
next
  case (Cons c s)
  show ?case
  proof (cases j)
    case 0
    with Cons.prems show ?thesis by simp
  next
    case (Suc k)
    with Cons.prems have "str_in w (drop k s)" by simp
    then have "str_in w s" by (rule Cons.IH)
    then show ?thesis by simp
  qed
qed

lemma none_in_drop: "none_in ws s \<Longrightarrow> none_in ws (drop j s)"
  by (auto simp add: none_in_def list_all_iff dest: str_in_drop)

lemma startswith_str_in: "startswith w s \<Longrightarrow> str_in w s"
  by (cases s) (auto elim: startswith.elims)

lemma matches_rest_none_in:
  "none_in ws s \<Longrightarrow> (s', g') \<in> set (matches r s g) \<Longrightarrow> none_in ws s'"
proof (induction r arbitrary: s g s' g')
  case (Lit w)
  then show ?case by (auto simp add: none_in_drop split: if_splits)
next
  case (Rep k m mx)
  then show ?case by (auto simp add: rep_rests_def Let_def none_in_drop)
next
  case (Opt r)
  from Opt.prems(2) have "(s', g') \<in> set (matches r s g) \<or> s' = s"
    by auto
  with Opt.IH Opt.prems(1) show ?case by blast
next
  case (Alt a b)
  from Alt.prems(2) have "(s', g') \<in> set (matches a s g) \<or> (s', g') \<in> set (matches b s g)"
    by simp
  with Alt.IH Alt.prems(1) show ?case by blast
next
  case (Seq a b)
  from Seq.prems(2) obtain s1 g1
    where "(s1, g1) \<in> set (matches a s g)" and "(s', g') \<in> set (matches b s1 g1)"
    by auto
  with Seq.IH Seq.prems(1) show ?case by blast
next
  case (Grp i r)
  from Grp.prems(2) obtain g1 where "(s', g1) \<in> set (matches r s g)"
    by auto
  with Grp.IH Grp.prems(1) show ?case by blast
qed

lemma needs_one_no_match:
  "needs_one ws r \<Longrightarrow> none_in ws s \<Longrightarrow> matches r s g = []"
proof (induction r arbitrary: s g)
  case (Lit w)
  then have "\<not> str_in w s"
    by (simp add: none_in_def list_all_iff)
  then have "\<not> startswith w s"
    by (blast dest: startswith_str_in)
  then show ?case by simp
next
  case (Seq a b)
  show ?case
  proof (cases "needs_one ws a")
    case True
    with Seq show ?thesis by simp
  next
    case False
    with Seq.prems have b: "needs_one ws b" by simp
    have "matches b s' g' = []" if "(s', g') \<in> set (matches a s g)" for s' g'
      using that Seq.IH(2) [OF b] matches_rest_none_in [OF Seq.prems(2)] by blast
    then show ?thesis by auto
  qed
qed simp_all

lemma needs_one_no_search:
  "needs_one ws r \<Longrightarrow> none_in ws s \<Longrightarrow> re_search r n s = None"
proof (induction s)
  case Nil
  then show ?case by (simp add: match_here_def needs_one_no_match)
next
  case (Cons c s)
  from Cons.prems(2) have "none_in ws (drop 1 (c # s))"
    by (rule none_in_drop)
  then have "none_in ws s" by simp
  with Cons show ?case by (simp add: match_here_def needs_one_no_match)
qed

lemma time_patterns_need_marker:
  "list_all (\<lambda>(p, n). needs_one [''at'', '':'', ''am'', ''pm''] p) time_patterns"
  by (simp add: time_patterns_def seqs_def am_pm_def)

lemma no_marker_no_time:
  assumes "in_hours_match (strip (lower text)) = None"
    and "none_in [''at'', '':'', ''am'', ''pm''] (strip (lower text))"
  shows "parse_natural_time text now = Inr (None, Some no_time_message)"
proof -
  have "list_all (\<lambda>(p, n). re_search p n (strip (lower text)) = None) time_patterns"
    using time_patterns_need_marker assms(2)
    by (auto simp add: list_all_iff needs_one_no_search)
  with assms(1) show ?thesis
    by (simp add: parse_without_offset find_time_none)
qed

text \<open>
  C6, as the code has it. An hour without a colon and without ``am'' or ``pm'' is
  accepted after ``at'' and white space: ``at 15'' resolves to 15:00 and ``at 3'' to
  03:00 of the reference date, the hour unchanged. Without such a marker it is not: a
  text in which neither ``at'', nor a colon, nor ``am'', nor ``pm'' occurs, and which has
  no offset phrase, fails with the message that no time was found, whatever numbers it
  holds.
\<close>

theorem bare_hour_needs_marker:
  "parse_natural_time ''at 15'' now =
     Inr (Some \<lparr>ordinal = ordinal now, hour = 15, minute = 0, second = 0, microsecond = 0\<rparr>, None)
   \<and> parse_natural_time ''at 3'' now =
     Inr (Some \<lparr>ordinal = ordinal now, hour = 3, minute = 0, second = 0, microsecond = 0\<rparr>, None)
   \<and> (in_hours_match (strip (lower text)) = None
        \<and> none_in [''at'', '':'', ''am'', ''pm''] (strip (lower text))
       \<longrightarrow> parse_natural_time text now = Inr (None, Some no_time_message))"
  using no_marker_no_time [of "text" now]
  by (simp add: parse_without_offset bare_hour_text find_date_def combine_def to_24h_def)

text \<open>The text ``tomorrow 15 lunch'' has a bare hour and none of the markers.\<close>

theorem bare_hour_needs_marker_witness:
  "in_hours_match (strip (lower ''tomorrow 15 lunch'')) = None
   \<and> none_in [''at'', '':'', ''am'', ''pm''] (strip (lower ''tomorrow 15 lunch''))
   \<and> parse_natural_time ''tomorrow 15 lunch'' friday_morning = Inr (None, Some no_time_message)
   \<and> parse_natural_time ''at 15'' friday_morning =
     Inr (Some \<lparr>ordinal = ordinal friday_morning, hour = 15, minute = 0, second = 0,
                microsecond = 0\<rparr>, None)
   \<and> parse_natural_time ''at 3'' friday_morning =
     Inr (Some \<lparr>ordinal = ordinal friday_morning, hour = 3, minute = 0, second = 0,
                microsecond = 0\<rparr>, None)"
proof -
  have a: "in_hours_match (strip (lower ''tomorrow 15 lunch'')) = None"
    by code_simp
  have b: "none_in [''at'', '':'', ''am'', ''pm''] (strip (lower ''tomorrow 15 lunch''))"
    by code_simp
  from a b bare_hour_needs_marker [of friday_morning "''tomorrow 15 lunch''"] show ?thesis
    by blast
qed

text \<open>
  The claim of C6 fails: a text with a bare ``15'' or a bare ``3'' is rejected.
\<close>

theorem bare_hour_counterexample:
  "parse_natural_time ''15'' friday_morning = Inr (None, Some no_time_message)
   \<and> parse_natural_time ''3'' friday_morning = Inr (None, Some no_time_message)
   \<and> parse_natural_time ''tomorrow 15 lunch'' friday_morning = Inr (None, Some no_time_message)
   \<and> parse_natural_time ''tomorrow 3 lunch'' friday_morning = Inr (None, Some no_time_message)"
  by code_simp

subsection \<open>The range of a resolved time\<close>

lemma day_fields:
  fixes s :: int
  assumes "0 \<le> s" and "s < 86400"
  shows "0 \<le> s div 3600" "s div 3600 \<le> 23" "0 \<le> (s mod 3600) div 60"
    "(s mod 3600) div 60 \<le> 59" "0 \<le> s mod 60" "s mod 60 \<le> 59"
proof -
  show "0 \<le> s div 3600" using assms by (simp add: pos_imp_zdiv_nonneg_iff)
  have "s div 3600 < 24" using assms by (simp add: div_less_iff_less_mult)
  then show "s div 3600 \<le> 23" by simp
  show "0 \<le> (s mod 3600) div 60" by (simp add: pos_imp_zdiv_nonneg_iff)
  have "s mod 3600 < 3600" by simp
  then have "(s mod 3600) div 60 < 60" by (simp add: div_less_iff_less_mult)
  then show "(s mod 3600) div 60 \<le> 59" by simp
  show "0 \<le> s mod 60" by simp
  have "s mod 60 < 60" by simp
  then show "s mod 60 \<le> 59" by simp
qed


lemma digits_value_nonneg:
  "0 \<le> a \<Longrightarrow> list_all is_digit s \<Longrightarrow> 0 \<le> foldl (\<lambda>a c. 10 * a + digit_val c) a s"
proof (induction s arbitrary: a)
  case Nil
  then show ?case by simp
next
  case (Cons c s)
  then have "0 \<le> 10 * a + digit_val c"
    by (simp add: is_digit_def digit_val_def)
  with Cons show ?case by simp
qed

lemma py_int_nonneg: "py_int g = Inr n \<Longrightarrow> 0 \<le> n"
  using digits_value_nonneg [of 0]
  by (auto simp add: py_int_def split: option.splits if_splits)

lemma plus_delta_hours:
  assumes "valid_datetime now" and "0 \<le> h" and "plus_delta now 0 h = Inr t"
  shows "valid_datetime t \<and> ordinal now \<le> ordinal t"
proof -
  from assms(3) obtain td where td: "mk_timedelta 0 h = Inr td" and a: "dt_add now td = Inr t"
    by (auto simp add: plus_delta_def split: sum.splits)
  from td have "days td = (h * 3600) div 86400" and "seconds td = (h * 3600) mod 86400"
    by (auto simp add: mk_timedelta_def Let_def split: if_splits)
  with assms(2) have d: "0 \<le> days td" and "0 \<le> seconds td"
    by (simp_all add: pos_imp_zdiv_nonneg_iff)
  define total where "total = hour now * 3600 + minute now * 60 + second now + seconds td"
  define s where "s = total mod 86400"
  from day_seconds_nonneg [OF assms(1)] \<open>0 \<le> seconds td\<close> have "0 \<le> total"
    by (simp add: total_def)
  then have c: "0 \<le> total div 86400"
    by (simp add: pos_imp_zdiv_nonneg_iff)
  have s: "0 \<le> s" "s < 86400"
    by (simp_all add: s_def)
  have "dt_add now td =
      (if 0 < ordinal now + days td + total div 86400
          \<and> ordinal now + days td + total div 86400 \<le> MAXORDINAL
       then Inr \<lparr>ordinal = ordinal now + days td + total div 86400, hour = s div 3600,
                 minute = (s mod 3600) div 60, second = s mod 60,
                 microsecond = microsecond now\<rparr>
       else Inl OverflowError)"
    unfolding dt_add_def Let_def total_def s_def by (rule refl)
  with a have t: "t = \<lparr>ordinal = ordinal now + days td + total div 86400, hour = s div 3600,
                 minute = (s mod 3600) div 60, second = s mod 60,
                 microsecond = microsecond now\<rparr>"
    and r: "ordinal now + days td + total div 86400 \<le> MAXORDINAL"
    by (simp_all split: if_splits)
  have o: "ordinal t = ordinal now + days td + total div 86400"
    and f: "hour t = s div 3600" "minute t = (s mod 3600) div 60" "second t = s mod 60"
      "microsecond t = microsecond now"
    by (simp_all only: t datetime.simps)
  from o c d have le: "ordinal now \<le> ordinal t"
    by linarith
  moreover from assms(1) have "1 \<le> ordinal now" and "0 \<le> microsecond now"
    and "microsecond now \<le> 999999"
    by (simp_all only: valid_datetime_def)
  moreover from o r have "ordinal t \<le> MAXORDINAL"
    by (simp only:)
  ultimately show ?thesis
    unfolding valid_datetime_def f using day_fields [OF s] by (simp only: simp_thms)
qed

lemma days_ahead_range:
  assumes "0 \<le> wd" and "wd \<le> 6"
  shows "0 \<le> days_ahead wd now text \<and> days_ahead wd now text \<le> 7"
  using assms weekday_range [of now] by (simp add: days_ahead_def Let_def)

lemma find_date_not_before:
  assumes "valid_datetime now" and "find_date text now = Inr d"
  shows "ordinal now \<le> d"
proof (cases "str_in ''tomorrow'' text")
  case True
  with assms(2) obtain u where "plus_delta now 1 0 = Inr u" and "d = ordinal u"
    by (auto simp add: find_date_def split: sum.splits)
  with plus_delta_days [OF assms(1)] show ?thesis by fastforce
next
  case no_tomorrow: False
  show ?thesis
  proof (cases "str_in ''today'' text")
    case True
    with no_tomorrow assms(2) show ?thesis by (simp add: find_date_def)
  next
    case no_today: False
    show ?thesis
    proof (cases "find_weekday day_map text")
      case None
      with no_tomorrow no_today assms(2) show ?thesis by (simp add: find_date_def)
    next
      case (Some wd)
      with no_tomorrow no_today assms(2) obtain u
        where u: "plus_delta now (days_ahead wd now text) 0 = Inr u" and "d = ordinal u"
        by (auto simp add: find_date_def split: sum.splits)
      moreover from find_weekday_range [OF Some] have "0 \<le> days_ahead wd now text"
        using days_ahead_range by simp
      ultimately show ?thesis
        using plus_delta_days [OF assms(1) u] by simp
    qed
  qed
qed

text \<open>
  C8. For a valid reference time, every resolved time has its hour between 0 and 23 and
  its minute between 0 and 59, and its date is the reference date or a later one. The
  claim leaves a date set by an offset ``in N hours'' out; as N is not negative, the date
  is not before the reference date there either.
\<close>

theorem resolved_time_in_range:
  assumes "valid_datetime now"
    and "parse_natural_time text now = Inr (Some t, title)"
  shows "0 \<le> hour t \<and> hour t \<le> 23 \<and> 0 \<le> minute t \<and> minute t \<le> 59
         \<and> ordinal now \<le> ordinal t"
proof (cases "in_hours_match (strip (lower text))")
  case None
  from None assms(2) obtain h m period d where
    d: "find_date (strip (lower text)) now = Inr d"
    and t: "combine d (to_24h h period) m = Inr t"
    by (rule resolved_without_offset)
  from find_date_not_before [OF assms(1) d] combine_fields [OF t] show ?thesis
    by simp
next
  case (Some a)
  then obtain rest g where "in_hours_match (strip (lower text)) = Some (rest, g)"
    by (cases a) simp
  from this assms(2) obtain hours where
    "py_int (group g 0) = Inr hours" and p: "plus_delta now 0 hours = Inr t"
    by (rule resolved_with_offset)
  then have "0 \<le> hours"
    by (simp add: py_int_nonneg)
  from plus_delta_hours [OF assms(1) this p] show ?thesis
    by (simp add: valid_datetime_def)
qed

text \<open>
  The text ``monday 3:30pm meeting on a Friday morning resolves.
\<close>

theorem resolved_time_in_range_witness:
  "valid_datetime friday_morning
   \<and> parse_natural_time ''monday 3:30pm meeting'' friday_morning =
       Inr (Some \<lparr>ordinal = 738963, hour = 15, minute = 30, second = 0, microsecond = 0\<rparr>,
            Some ''meeting'')
   \<and> 0 \<le> hour \<lparr>ordinal = 738963, hour = 15, minute = 30, second = 0, microsecond = 0\<rparr>
   \<and> hour \<lparr>ordinal = 738963, hour = 15, minute = 30, second = 0, microsecond = 0\<rparr> \<le> 23
   \<and> 0 \<le> minute \<lparr>ordinal = 738963, hour = 15, minute = 30, second = 0, microsecond = 0\<rparr>
   \<and> minute \<lparr>ordinal = 738963, hour = 15, minute = 30, second = 0, microsecond = 0\<rparr> \<le> 59
   \<and> ordinal friday_morning
         \<le> ordinal \<lparr>ordinal = 738963, hour = 15, minute = 30, second = 0, microsecond = 0\<rparr>"
proof -
  have p: "parse_natural_time ''monday 3:30pm meeting'' friday_morning =
       Inr (Some \<lparr>ordinal = 738963, hour = 15, minute = 30, second = 0, microsecond = 0\<rparr>,
            Some ''meeting'')"
    by code_simp
  from friday_morning_valid p resolved_time_in_range [OF friday_morning_valid p]
  show ?thesis by blast
qed

subsection \<open>The ends of the title\<close>

lemma last_dropWhile: "dropWhile p xs \<noteq> [] \<Longrightarrow> last (dropWhile p xs) = last xs"
  by (induction xs) (auto split: if_splits)

lemma strip_with_ends:
  assumes "strip_with p s \<noteq> []"
  shows "\<not> p (hd (strip_with p s)) \<and> \<not> p (last (strip_with p s))"
proof -
  define u where "u = dropWhile p (rev (dropWhile p s))"
  have u: "u \<noteq> []" and w: "strip_with p s = rev u"
    using assms by (simp_all add: strip_with_def u_def)
  then have "rev (dropWhile p s) \<noteq> []"
    unfolding u_def by (metis dropWhile.simps(1))
  then have "dropWhile p s \<noteq> []"
    by simp
  then have "\<not> p (hd (dropWhile p s))"
    by (rule hd_dropWhile)
  moreover have "last u = last (rev (dropWhile p s))"
    using u unfolding u_def by (rule last_dropWhile)
  ultimately have "\<not> p (last u)"
    using \<open>dropWhile p s \<noteq> []\<close> by (simp add: last_rev)
  moreover have "\<not> p (hd u)"
    using u unfolding u_def by (rule hd_dropWhile)
  ultimately show ?thesis
    using u w by (simp add: hd_rev last_rev)
qed

text \<open>
  C9, as the code has it. The claim is that no title begins or ends with white space, a
  comma, a hyphen or a colon, on either branch. The branch of the time of day ends with
  \<^verbatim>\<open>strip(' ,-:')\<close>, which removes spaces, commas, hyphens and colons; the branch of
  ``in N hours'' ends with \<^verbatim>\<open>strip()\<close>, which removes white space only. So a title
  that is present is not empty; on the branch of the time of day it neither begins nor
  ends with a space, a comma, a hyphen or a colon; on the branch of the offset it neither
  begins nor ends with a white space character.
\<close>

theorem title_trimmed_per_branch:
  assumes "parse_natural_time text now = Inr (Some t, Some title)"
  shows "title \<noteq> [] \<and>
    (case in_hours_match (strip (lower text)) of
       None \<Rightarrow> hd title \<notin> set '' ,-:'' \<and> last title \<notin> set '' ,-:''
     | Some m \<Rightarrow> \<not> is_space (hd title) \<and> \<not> is_space (last title))"
proof (cases "in_hours_match (strip (lower text))")
  case None
  from None assms obtain h m period d where
    "find_time time_patterns (strip (lower text)) = Inr (Some (h, m, period))"
    "find_date (strip (lower text)) now = Inr d"
    "combine d (to_24h h period) m = Inr t"
    "Some title = extract_title (strip (lower text))"
    by (rule resolved_without_offset)
  then obtain u where "title = strip_chars '' ,-:'' u" and "title \<noteq> []"
    by (auto simp add: extract_title_def Let_def split: if_splits)
  with strip_with_ends [of "\<lambda>c. c \<in> set '' ,-:''" u] None show ?thesis
    by (simp add: strip_chars_def)
next
  case (Some a)
  then obtain rest g where m: "in_hours_match (strip (lower text)) = Some (rest, g)"
    by (cases a) simp
  from this assms obtain hours where
    "py_int (group g 0) = Inr hours"
    "plus_delta now 0 hours = Inr t"
    "Some title = in_hours_title (strip (lower text))"
    by (rule resolved_with_offset)
  then obtain u where "title = strip u" and "title \<noteq> []"
    by (auto simp add: in_hours_title_def Let_def split: if_splits)
  with strip_with_ends [of is_space u] m show ?thesis
    by (simp add: strip_def)
qed

text \<open>
  The text ``tomorrow at 2pm - Team sync,'' resolves with the title ``team sync'', and
  ``Call mum in 30 hours'' with the title ``call mum''.
\<close>

theorem title_trimmed_per_branch_witness:
  "parse_natural_time ''tomorrow at 2pm - Team sync,'' friday_morning =
       Inr (Some \<lparr>ordinal = 738961, hour = 14, minute = 0, second = 0, microsecond = 0\<rparr>,
            Some ''team sync'')
   \<and> in_hours_match (strip (lower ''tomorrow at 2pm - Team sync,'')) = None
   \<and> ''team sync'' \<noteq> []
   \<and> hd ''team sync'' \<notin> set '' ,-:'' \<and> last ''team sync'' \<notin> set '' ,-:''
   \<and> parse_natural_time ''Call mum in 30 hours'' friday_morning =
       Inr (Some \<lparr>ordinal = 738961, hour = 14, minute = 0, second = 0, microsecond = 0\<rparr>,
            Some ''call mum'')
   \<and> in_hours_match (strip (lower ''Call mum in 30 hours'')) = Some ([], [Some ''30''])
   \<and> \<not> is_space (hd ''call mum'') \<and> \<not> is_space (last ''call mum'')"
proof -
  have p: "parse_natural_time ''tomorrow at 2pm - Team sync,'' friday_morning =
       Inr (Some \<lparr>ordinal = 738961, hour = 14, minute = 0, second = 0, microsecond = 0\<rparr>,
            Some ''team sync'')"
    by code_simp
  have n: "in_hours_match (strip (lower ''tomorrow at 2pm - Team sync,'')) = None"
    by code_simp
  have q: "parse_natural_time ''Call mum in 30 hours'' friday_morning =
       Inr (Some \<lparr>ordinal = 738961, hour = 14, minute = 0, second = 0, microsecond = 0\<rparr>,
            Some ''call mum'')"
    by code_simp
  have m: "in_hours_match (strip (lower ''Call mum in 30 hours'')) = Some ([], [Some ''30''])"
    by code_simp
  from title_trimmed_per_branch [OF p] title_trimmed_per_branch [OF q] n m p q show ?thesis
    by simp
qed


text \<open>
  The claim of C9 fails: ``in 2 hours - team sync:'' gives the title ``- team sync:'',
  which begins with a hyphen and ends with a colon. On the other branch a tab, which is a
  white space character, stays at the end of the title of a text that ends in ``at 5''
  after a tab.
\<close>

theorem title_trimmed_counterexample:
  "parse_natural_time ''in 2 hours - team sync:'' friday_morning =
       Inr (Some \<lparr>ordinal = 738960, hour = 10, minute = 0, second = 0, microsecond = 0\<rparr>,
            Some ''- team sync:'')
   \<and> parse_natural_time (''lunch'' @ [CHR 0x09] @ ''at 5'') friday_morning =
       Inr (Some \<lparr>ordinal = 738960, hour = 5, minute = 0, second = 0, microsecond = 0\<rparr>,
            Some (''lunch'' @ [CHR 0x09]))
   \<and> is_space (CHR 0x09)"
  by code_simp

subsection \<open>Parsing the title again\<close>

lemma digit_free_drop: "digit_free s \<Longrightarrow> digit_free (drop j s)"
  by (auto simp add: digit_free_def list_all_iff dest: in_set_dropD)

lemma matches_rest_digit_free:
  "digit_free s \<Longrightarrow> (s', g') \<in> set (matches r s g) \<Longrightarrow> digit_free s'"
proof (induction r arbitrary: s g s' g')
  case (Lit w)
  then show ?case by (auto simp add: digit_free_drop split: if_splits)
next
  case (Rep k m mx)
  then show ?case by (auto simp add: rep_rests_def Let_def digit_free_drop)
next
  case (Opt r)
  from Opt.prems(2) have "(s', g') \<in> set (matches r s g) \<or> s' = s"
    by auto
  with Opt.IH Opt.prems(1) show ?case by blast
next
  case (Alt a b)
  from Alt.prems(2) have "(s', g') \<in> set (matches a s g) \<or> (s', g') \<in> set (matches b s g)"
    by simp
  with Alt.IH Alt.prems(1) show ?case by blast
next
  case (Seq a b)
  from Seq.prems(2) obtain s1 g1
    where "(s1, g1) \<in> set (matches a s g)" and "(s', g') \<in> set (matches b s1 g1)"
    by auto
  with Seq.IH Seq.prems(1) show ?case by blast
next
  case (Grp i r)
  from Grp.prems(2) obtain g1 where "(s', g1) \<in> set (matches r s g)"
    by auto
  with Grp.IH Grp.prems(1) show ?case by blast
qed

lemma rep_digit_none:
  assumes "digit_free s" and "0 < m"
  shows "rep_rests Digit m mx s = []"
proof -
  have "takeWhile (in_cls Digit) s = []"
    using assms(1) by (cases s) (simp_all add: digit_free_def)
  with assms(2) show ?thesis
    by (simp add: rep_rests_def Let_def split: option.splits)
qed

lemma needs_digit_no_match:
  "needs_digit r \<Longrightarrow> digit_free s \<Longrightarrow> matches r s g = []"
proof (induction r arbitrary: s g)
  case (Rep k m mx)
  then show ?case by (simp add: rep_digit_none)
next
  case (Seq a b)
  show ?case
  proof (cases "needs_digit a")
    case True
    with Seq show ?thesis by simp
  next
    case False
    with Seq.prems have b: "needs_digit b" by simp
    have "matches b s' g' = []" if "(s', g') \<in> set (matches a s g)" for s' g'
      using that Seq.IH(2) [OF b] matches_rest_digit_free [OF Seq.prems(2)] by blast
    then show ?thesis by auto
  qed
qed simp_all

lemma needs_digit_no_search:
  "needs_digit r \<Longrightarrow> digit_free s \<Longrightarrow> re_search r n s = None"
proof (induction s)
  case Nil
  then show ?case by (simp add: match_here_def needs_digit_no_match)
next
  case (Cons c s)
  then have "digit_free s" by (simp add: digit_free_def)
  with Cons show ?case by (simp add: match_here_def needs_digit_no_match)
qed

lemma patterns_need_digit:
  "needs_digit in_hours_re"
  "list_all (\<lambda>(p, n). needs_digit p) time_patterns"
  by (simp_all add: in_hours_re_def time_patterns_def seqs_def)

lemma lower_char_digit: "is_digit (lower_char c) \<Longrightarrow> is_digit c"
  by (auto simp add: lower_char_def is_digit_def code_def split: if_splits)

lemma digit_free_prepared: "digit_free s \<Longrightarrow> digit_free (strip (lower s))"
proof -
  assume a: "digit_free s"
  have "set (strip u) \<subseteq> set u" for u
    by (auto simp add: strip_def strip_with_def dest!: set_dropWhileD)
  moreover have "digit_free (lower s)"
    using a lower_char_digit by (auto simp add: digit_free_def lower_def list_all_iff)
  ultimately show ?thesis
    by (auto simp add: digit_free_def list_all_iff)
qed

lemma digit_free_text_fails:
  assumes "digit_free s"
  shows "parse_natural_time s now = Inr (None, Some no_time_message)"
proof -
  let ?t = "strip (lower s)"
  have d: "digit_free ?t"
    by (rule digit_free_prepared [OF assms])
  have "in_hours_match ?t = None"
    by (simp add: in_hours_match_def needs_digit_no_search patterns_need_digit d)
  moreover have "list_all (\<lambda>(p, n). re_search p n ?t = None) time_patterns"
    using patterns_need_digit(2) d
    by (auto simp add: list_all_iff needs_digit_no_search)
  ultimately show ?thesis
    by (simp add: parse_without_offset find_time_none)
qed

text \<open>
  C5, as the code has it. The claim is that the title of a resolved parse, parsed alone,
  always fails for want of a time. The title can still hold a time phrase: the branch of
  ``in N hours'' removes the offset phrases only, and on the other branch the removal of
  one phrase can bring a number and a following ``pm'' together. What holds is: a title
  without any digit, parsed alone at any reference time, fails with the message that no
  time was found, as the offset pattern and the three time patterns all need a digit.
\<close>

theorem digit_free_title_fails:
  assumes "parse_natural_time text now = Inr (Some t, Some title)"
    and "digit_free title"
  shows "parse_natural_time title now' = Inr (None, Some no_time_message)"
  using assms(2) by (rule digit_free_text_fails)

text \<open>
  The text ``tomorrow at 2pm team meeting'' has the title ``team meeting''.
\<close>

theorem digit_free_title_fails_witness:
  "parse_natural_time ''tomorrow at 2pm team meeting'' friday_morning =
       Inr (Some \<lparr>ordinal = 738961, hour = 14, minute = 0, second = 0, microsecond = 0\<rparr>,
            Some ''team meeting'')
   \<and> digit_free ''team meeting''
   \<and> parse_natural_time ''team meeting'' friday_morning = Inr (None, Some no_time_message)"
proof -
  have p: "parse_natural_time ''tomorrow at 2pm team meeting'' friday_morning =
       Inr (Some \<lparr>ordinal = 738961, hour = 14, minute = 0, second = 0, microsecond = 0\<rparr>,
            Some ''team meeting'')"
    by code_simp
  have d: "digit_free ''team meeting''"
    by code_simp
  from p d digit_free_title_fails [OF p d, of friday_morning] show ?thesis
    by blast
qed

text \<open>
  The claim of C5 fails: ``in 2 hours at 5pm lunch'' resolves with the title
  ``at 5pm lunch'', which resolves again, to 17:00; and ``1 2pm pm'' resolves with the
  title ``1  pm'', which resolves again, to 13:00.
\<close>

theorem reparse_title_counterexample:
  "parse_natural_time ''in 2 hours at 5pm lunch'' friday_morning =
       Inr (Some \<lparr>ordinal = 738960, hour = 10, minute = 0, second = 0, microsecond = 0\<rparr>,
            Some ''at 5pm lunch'')
   \<and> parse_natural_time ''at 5pm lunch'' friday_morning =
       Inr (Some \<lparr>ordinal = 738960, hour = 17, minute = 0, second = 0, microsecond = 0\<rparr>,
            Some ''lunch'')
   \<and> parse_natural_time ''1 2pm pm'' friday_morning =
       Inr (Some \<lparr>ordinal = 738960, hour = 14, minute = 0, second = 0, microsecond = 0\<rparr>,
            Some ''1  pm'')
   \<and> parse_natural_time ''1  pm'' friday_morning =
       Inr (Some \<lparr>ordinal = 738960, hour = 13, minute = 0, second = 0, microsecond = 0\<rparr>, None)"
  by code_simp

subsection \<open>The offset ``in N hours''\<close>

lemma day_fields_sum:
  fixes s :: int
  shows "s div 3600 * 3600 + (s mod 3600) div 60 * 60 + s mod 60 = s"
proof -
  have "(s mod 3600) mod 60 = s mod 60"
    by (simp add: mod_mod_cancel)
  then have "(s mod 3600) div 60 * 60 + s mod 60 = s mod 3600"
    by (metis div_mult_mod_eq)
  then show ?thesis
    by (metis add.assoc div_mult_mod_eq)
qed

lemma plus_delta_hours_value:
  assumes "valid_datetime now" and "0 \<le> h"
    and "epoch_seconds now + h * 3600 < (MAXORDINAL + 1) * 86400"
  shows "\<exists>t. plus_delta now 0 h = Inr t \<and> epoch_seconds t = epoch_seconds now + h * 3600
             \<and> microsecond t = microsecond now"
proof -
  define secs where "secs = hour now * 3600 + minute now * 60 + second now"
  define d1 where "d1 = (h * 3600) div 86400"
  define total where "total = secs + (h * 3600) mod 86400"
  define d where "d = ordinal now + d1 + total div 86400"
  define s where "s = total mod 86400"
  have secs: "0 \<le> secs"
    unfolding secs_def by (rule day_seconds_nonneg [OF assms(1)])
  have d1: "0 \<le> d1"
    using assms(2) by (simp add: d1_def pos_imp_zdiv_nonneg_iff)
  have "0 \<le> (h * 3600) mod 86400"
    by simp
  with secs have "0 \<le> total"
    by (simp add: total_def)
  then have c: "0 \<le> total div 86400"
    by (simp add: pos_imp_zdiv_nonneg_iff)
  have s: "0 \<le> s" "s < 86400"
    by (simp_all add: s_def)
  have "d1 * 86400 + (h * 3600) mod 86400 = h * 3600"
    unfolding d1_def by (rule div_mult_mod_eq)
  moreover have "total div 86400 * 86400 + s = total"
    unfolding s_def by (rule div_mult_mod_eq)
  ultimately have e: "d * 86400 + s = ordinal now * 86400 + secs + h * 3600"
    by (simp add: d_def total_def algebra_simps)
  have "ordinal now * 86400 + secs = epoch_seconds now"
    by (simp add: epoch_seconds_def secs_def)
  with e assms(3) have "d * 86400 + s < (MAXORDINAL + 1) * 86400"
    by simp
  with s have "d * 86400 < (MAXORDINAL + 1) * 86400"
    by linarith
  then have hi: "d \<le> MAXORDINAL"
    by simp
  have "1 \<le> ordinal now"
    using assms(1) by (simp only: valid_datetime_def)
  with d1 c have lo: "0 < d" and "d1 \<le> d"
    by (simp_all add: d_def)
  with hi have "d1 \<le> 999999999"
    by (simp add: MAXORDINAL_def)
  with d1 have td: "mk_timedelta 0 h = Inr \<lparr>days = d1, seconds = (h * 3600) mod 86400\<rparr>"
    by (simp add: mk_timedelta_def Let_def d1_def)
  define t where "t = \<lparr>ordinal = d, hour = s div 3600, minute = (s mod 3600) div 60,
     second = s mod 60, microsecond = microsecond now\<rparr>"
  have "dt_add now \<lparr>days = d1, seconds = (h * 3600) mod 86400\<rparr> =
      (if 0 < d \<and> d \<le> MAXORDINAL then Inr t else Inl OverflowError)"
    unfolding dt_add_def Let_def t_def d_def s_def total_def secs_def by simp
  with lo hi td have p: "plus_delta now 0 h = Inr t"
    by (simp add: plus_delta_def)
  have "epoch_seconds t = d * 86400 + (s div 3600 * 3600 + (s mod 3600) div 60 * 60 + s mod 60)"
    by (simp add: epoch_seconds_def t_def)
  also have "\<dots> = d * 86400 + s"
    by (simp only: day_fields_sum)
  also have "\<dots> = epoch_seconds now + h * 3600"
    using e by (simp add: epoch_seconds_def secs_def)
  finally have "epoch_seconds t = epoch_seconds now + h * 3600" .
  moreover have "microsecond t = microsecond now"
    by (simp add: t_def)
  ultimately show ?thesis
    using p by blast
qed

lemma match_here_some:
  "match_here r n s = Some m \<Longrightarrow> m \<in> set (matches r s (replicate n None))"
  by (auto simp add: match_here_def split: list.splits)

lemma re_search_some:
  "re_search r n s = Some m \<Longrightarrow> \<exists>u. m \<in> set (matches r u (replicate n None))"
proof (induction s)
  case Nil
  then have "match_here r n [] = Some m" by simp
  then show ?case by (blast dest: match_here_some)
next
  case (Cons c s)
  show ?case
  proof (cases "match_here r n (c # s)")
    case None
    with Cons show ?thesis by simp
  next
    case (Some a)
    with Cons.prems have "match_here r n (c # s) = Some m" by simp
    then show ?thesis by (blast dest: match_here_some)
  qed
qed

lemma matches_seq:
  assumes "(s', g') \<in> set (matches (Seq a b) s g)"
  obtains s1 g1 where "(s1, g1) \<in> set (matches a s g)" and "(s', g') \<in> set (matches b s1 g1)"
  using assms by auto

lemma matches_keeps_groups:
  "(s', g') \<in> set (matches (Lit w) s g) \<Longrightarrow> g' = g"
  "(s', g') \<in> set (matches (Rep k m mx) s g) \<Longrightarrow> g' = g"
  "(s', g') \<in> set (matches (Opt (Lit w)) s g) \<Longrightarrow> g' = g"
  by (auto split: if_splits)

lemma digit_run_prefix:
  assumes "s' \<in> set (rep_rests Digit 1 None s)"
  shows "take (length s - length s') s \<noteq> [] \<and> list_all is_digit (take (length s - length s') s)"
proof -
  let ?run = "takeWhile (in_cls Digit) s"
  from assms obtain j where j: "1 \<le> j" "j \<le> length ?run" and s': "s' = drop j s"
    by (auto simp add: rep_rests_def Let_def)
  have "length ?run \<le> length s"
    by (rule length_takeWhile_le)
  with j have len: "length s - length s' = j"
    by (simp add: s')
  have "s = ?run @ dropWhile (in_cls Digit) s"
    by simp
  then have "take j s = take j (?run @ dropWhile (in_cls Digit) s)"
    by simp
  also have "\<dots> = take j ?run"
    using j by (simp del: takeWhile_dropWhile_id)
  finally have t: "take j s = take j ?run" .
  have "list_all (in_cls Digit) (take j ?run)"
    by (auto simp add: list_all_iff dest!: in_set_takeD set_takeWhileD)
  then have "list_all is_digit (take j s)"
    by (simp add: t list_all_iff)
  moreover have "take j s \<noteq> []"
    using j \<open>length ?run \<le> length s\<close> by auto
  ultimately show ?thesis
    by (simp add: len)
qed

lemma in_hours_groups:
  assumes "(rest, g) \<in> set (matches in_hours_re s [None])"
  shows "\<exists>ds. g = [Some ds] \<and> ds \<noteq> [] \<and> list_all is_digit ds"
proof -
  from assms obtain s1 g1 s2 g2 s3 g3 s4 g4 s5 g5 s6 g6
    where 1: "(s1, g1) \<in> set (matches (Lit ''in'') s [None])"
      and 2: "(s2, g2) \<in> set (matches (Rep Space 1 None) s1 g1)"
      and 3: "(s3, g3) \<in> set (matches (Grp 0 (Rep Digit 1 None)) s2 g2)"
      and 4: "(s4, g4) \<in> set (matches (Rep Space 0 None) s3 g3)"
      and 5: "(s5, g5) \<in> set (matches (Lit ''hour'') s4 g4)"
      and 6: "(s6, g6) \<in> set (matches (Opt (Lit ''s'')) s5 g5)"
      and 7: "(rest, g) \<in> set (matches (Lit []) s6 g6)"
    unfolding in_hours_re_def seqs_def foldr.simps o_apply id_apply
    by (elim matches_seq) blast
  have g2: "g2 = [None]"
    using matches_keeps_groups(1) [OF 1] matches_keeps_groups(2) [OF 2] by simp
  have g: "g = g3"
    using matches_keeps_groups(2) [OF 4] matches_keeps_groups(1) [OF 5]
      matches_keeps_groups(3) [OF 6] matches_keeps_groups(1) [OF 7] by simp
  from 3 obtain u where "u \<in> set (rep_rests Digit 1 None s2)"
    and "g3 = g2[0 := Some (take (length s2 - length u) s2)]"
    by auto
  with digit_run_prefix [of u s2] g g2 show ?thesis
    by simp
qed

lemma offset_number:
  assumes "in_hours_match s = Some (rest, g)"
  shows "\<exists>ds. group g 0 = Some ds \<and> ds \<noteq> [] \<and> list_all is_digit ds
              \<and> py_int (group g 0) =
                  (if length ds \<le> 4300 then Inr (foldl (\<lambda>a c. 10 * a + digit_val c) 0 ds)
                   else Inl ValueError)"
proof -
  from assms obtain u where "(rest, g) \<in> set (matches in_hours_re u [None])"
    using re_search_some [of in_hours_re 1 s "(rest, g)"] by (auto simp add: in_hours_match_def)
  then obtain ds where "g = [Some ds]" and "ds \<noteq> []" and "list_all is_digit ds"
    using in_hours_groups by blast
  then show ?thesis
    by (simp add: py_int_def group_def)
qed

lemma offset_too_many_digits:
  assumes "in_hours_match (strip (lower text)) = Some (rest, g)"
    and "group g 0 = Some ds" and "4300 < length ds"
  shows "parse_natural_time text now = Inl ValueError"
  using assms(2,3) by (simp add: parse_with_offset [OF assms(1)] py_int_def)

text \<open>
  C4, as the code has it. The claim is that a text with a phrase ``in N hours'' resolves
  to the reference time plus N hours, with the text less that phrase as the title. The
  number is the one of the leftmost phrase that \<^verbatim>\<open>re.search\<close> finds, every phrase
  of that form is removed from the title, and the sum has to be a \<^verbatim>\<open>datetime\<close>, that
  is, not after the last second of 9999-12-31. The group of the pattern is a string of
  digits, not empty (\<open>offset_number\<close>), and \<^verbatim>\<open>int\<close> reads it when it has at most
  4300 digits; with more, \<^verbatim>\<open>ValueError\<close> leaves the parser
  (\<open>offset_too_many_digits\<close>). So: when the offset pattern is found, \<^verbatim>\<open>int\<close> reads
  the number \<open>n\<close> from its group, and the reference time plus \<open>n\<close> hours is not after
  that bound, the parser returns that time, valid and exactly \<open>n\<close> hours after the
  reference time, and the title
  \<open>in_hours_title\<close>: the text without the offset phrases, stripped of white space,
  absent when empty. Neither the time patterns nor the day words are consulted.
\<close>

theorem offset_resolves:
  assumes "valid_datetime now"
    and "in_hours_match (strip (lower text)) = Some (rest, g)"
    and "py_int (group g 0) = Inr n"
    and "epoch_seconds now + n * 3600 < (MAXORDINAL + 1) * 86400"
  shows "\<exists>t. parse_natural_time text now = Inr (Some t, in_hours_title (strip (lower text)))
             \<and> valid_datetime t
             \<and> epoch_seconds t = epoch_seconds now + n * 3600
             \<and> microsecond t = microsecond now"
proof -
  have n: "0 \<le> n"
    using assms(3) by (rule py_int_nonneg)
  from plus_delta_hours_value [OF assms(1) n assms(4)] obtain t
    where p: "plus_delta now 0 n = Inr t"
      and e: "epoch_seconds t = epoch_seconds now + n * 3600"
      and m: "microsecond t = microsecond now"
    by blast
  from plus_delta_hours [OF assms(1) n p] have "valid_datetime t"
    by simp
  moreover have "parse_natural_time text now = Inr (Some t, in_hours_title (strip (lower text)))"
    by (simp add: parse_with_offset [OF assms(2)] assms(3) p)
  ultimately show ?thesis
    using e m by blast
qed

text \<open>
  The text ``Call mum in 30 hours'' on a Friday at 08:00 resolves to Saturday 14:00.
\<close>

theorem offset_resolves_witness:
  "valid_datetime friday_morning
   \<and> in_hours_match (strip (lower ''Call mum in 30 hours'')) = Some ([], [Some ''30''])
   \<and> py_int (group [Some ''30''] 0) = Inr 30
   \<and> epoch_seconds friday_morning + 30 * 3600 < (MAXORDINAL + 1) * 86400
   \<and> in_hours_title (strip (lower ''Call mum in 30 hours'')) = Some ''call mum''
   \<and> parse_natural_time ''Call mum in 30 hours'' friday_morning =
        Inr (Some \<lparr>ordinal = 738961, hour = 14, minute = 0, second = 0, microsecond = 0\<rparr>,
             Some ''call mum'')"
proof -
  have h2: "in_hours_match (strip (lower ''Call mum in 30 hours'')) = Some ([], [Some ''30''])"
    by code_simp
  have h3: "py_int (group [Some ''30''] 0) = Inr 30"
    by code_simp
  have h4: "epoch_seconds friday_morning + 30 * 3600 < (MAXORDINAL + 1) * 86400"
    by (simp add: epoch_seconds_def friday_morning_def MAXORDINAL_def)
  have t: "in_hours_title (strip (lower ''Call mum in 30 hours'')) = Some ''call mum''"
    by code_simp
  have p: "parse_natural_time ''Call mum in 30 hours'' friday_morning =
        Inr (Some \<lparr>ordinal = 738961, hour = 14, minute = 0, second = 0, microsecond = 0\<rparr>,
             Some ''call mum'')"
    by code_simp
  from offset_resolves [OF friday_morning_valid h2 h3 h4] friday_morning_valid h2 h3 h4 t p
  show ?thesis by blast
qed

text \<open>
  The claim of C4 fails: ``in 1 hour in 2 hours x'' contains the phrase ``in 2 hours'' and
  resolves to 09:00, one hour after the reference time, with both phrases removed from
  the title; and with N = 99999999 the parser does not return.
\<close>

theorem offset_counterexample:
  "str_in ''in 2 hours'' ''in 1 hour in 2 hours x''
   \<and> parse_natural_time ''in 1 hour in 2 hours x'' friday_morning =
        Inr (Some \<lparr>ordinal = 738960, hour = 9, minute = 0, second = 0, microsecond = 0\<rparr>,
             Some ''x'')
   \<and> parse_natural_time ''call in 99999999 hours'' friday_morning = Inl OverflowError"
  by code_simp


end
